theory Spec2Isabelle
  imports Main "HOL-Library.Word" "HOL-Library.AList"
begin

section \<open>Go values\<close>

text \<open>
  The block store is Go code. Its \<open>int64\<close> and \<open>int\<close> quantities (offsets, sizes, part
  indices, counters) are modelled as \<open>int\<close>; they are sums and differences of offsets and
  lengths of data held in memory. The one product the code forms from a caller's number,
  the rounding of \<open>MaxSize\<close> in \<open>MakeFile\<close>, is modelled with the 64-bit wrap-around written
  out (\<open>wrap64\<close>). Go's \<open>/\<close> and \<open>%\<close> truncate towards zero and panic on a zero divisor:
  \<open>go_div\<close> and \<open>go_mod\<close> are the truncating operations, and every caller tests the divisor.

  \<open>P\<close> stands for the package variable \<open>partDataSize\<close> (64 KiB by default, overridden in
  tests). It is a parameter of every function that reads it.

  A Go map is an association list with distinct keys (\<open>map_of\<close>, \<open>AList.update\<close>,
  \<open>AList.delete\<close>); where the code ranges over a map, the model ranges over the list in
  its order. A \<open>nil\<close> map is \<open>None\<close> where the code can tell it from an empty one.
  The mutex is not modelled: the functions below are the sequential behaviour of the code.
\<close>

type_synonym byte = "8 word"

definition wrap64 :: "int \<Rightarrow> int" where
  "wrap64 x = (x + 2 ^ 63) mod 2 ^ 64 - 2 ^ 63"

definition go_div :: "int \<Rightarrow> int \<Rightarrow> int" where
  "go_div a b = sgn a * sgn b * (\<bar>a\<bar> div \<bar>b\<bar>)"

definition go_mod :: "int \<Rightarrow> int \<Rightarrow> int" where
  "go_mod a b = a - b * go_div a b"

text \<open>
  An \<open>error\<close> is a Go error value: \<open>ErrMsg m\<close> is \<open>fmt.Errorf(m)\<close> and \<open>ErrWrap m e\<close>
  is \<open>fmt.Errorf(m + ": %v", e)\<close>. A \<open>fault\<close> is any way a call ends without its
  result: it returns an error value, it panics, or it never returns. A Go function
  returning \<open>error\<close> has the result type \<open>fault + unit\<close>; \<open>Inr ()\<close> is \<open>nil\<close>.
\<close>

datatype error =
    ErrMsg string
  | ErrWrap string error

datatype fault =
    Error error
  | RuntimePanic string
  | NoReturn

fun errorf :: "string \<Rightarrow> fault \<Rightarrow> fault" where
  "errorf m (Error e) = Error (ErrWrap m e)"
| "errorf m (RuntimePanic p) = RuntimePanic p"
| "errorf m NoReturn = NoReturn"

definition divideByZero :: fault where
  "divideByZero = RuntimePanic ''integer divide by zero''"

definition nilDereference :: fault where
  "nilDereference = RuntimePanic ''invalid memory address or nil pointer dereference''"

definition indexOutOfRange :: fault where
  "indexOutOfRange = RuntimePanic ''index out of range''"

definition sliceOutOfRange :: fault where
  "sliceOutOfRange = RuntimePanic ''slice bounds out of range''"

definition nilMapAssignment :: fault where
  "nilMapAssignment = RuntimePanic ''assignment to entry in nil map''"

text \<open>Values of Go's \<open>any\<close>; the code only compares them with \<open>nil\<close>.\<close>

datatype any = AnyNil | AnyInt int | AnyStr string | AnyBool bool

section \<open>Data model\<close>

type_synonym FileMeta = "(string \<times> any) list option"

record FileOptsType =
  MaxSize :: int
  Circular :: bool
  IJson :: bool

record BlockFile =
  BlockId :: string
  Name :: string
  Opts :: FileOptsType
  CreatedTs :: int
  Size :: int
  ModTs :: int
  Meta :: FileMeta

text \<open>
  \<open>Data\<close> is the slice (its \<open>len\<close> elements); \<open>Rest\<close> holds the elements of its backing
  array from \<open>len\<close> up to \<open>cap\<close>, which reslicing makes visible.
\<close>

record DataCacheEntry =
  Dirty :: bool
  Flushing :: bool
  PartIdx :: int
  Data :: "byte list"
  Rest :: "byte list"

record FileCacheEntry =
  Dirty :: bool
  Flushing :: bool
  File :: BlockFile

record WriteIntention =
  Parts :: "(int \<times> int) list"
  Append :: bool
  Replace :: bool

type_synonym cacheKey = "string \<times> string"

record CacheEntry =
  BlockId :: string
  Name :: string
  PinCount :: int
  Deleted :: bool
  WriteIntentions :: "(int \<times> WriteIntention) list"
  FileEntry :: "FileCacheEntry option"
  DataEntries :: "DataCacheEntry option list"

record BlockStore =
  Cache :: "(cacheKey \<times> CacheEntry) list"
  NextIntentionId :: int

definition NoPartIdx :: int where
  "NoPartIdx = - 1"

text \<open>
  The backing store. Its functions (\<open>dbInsertFile\<close>, \<open>dbDeleteFile\<close>, ...) are not among
  the source files; they are parameters of the model, acting on a state \<open>'d\<close> of their own
  and returning error values. \<open>dbGetFileParts\<close> returns a map that is not \<open>nil\<close> and
  holds no \<open>nil\<close> entry.
\<close>

record 'd backing =
  dbInsertFile :: "BlockFile \<Rightarrow> 'd \<Rightarrow> (error + unit) \<times> 'd"
  dbDeleteFile :: "string \<Rightarrow> string \<Rightarrow> 'd \<Rightarrow> (error + unit) \<times> 'd"
  dbGetBlockFileNames :: "string \<Rightarrow> 'd \<Rightarrow> error + string list"
  dbGetBlockFile :: "string \<Rightarrow> string \<Rightarrow> 'd \<Rightarrow> error + BlockFile option"
  dbGetFileParts :: "string \<Rightarrow> string \<Rightarrow> int list \<Rightarrow> 'd \<Rightarrow> error + (int \<times> DataCacheEntry) list"

section \<open>Cache entries\<close>

definition copyMeta :: "FileMeta \<Rightarrow> FileMeta" where
  "copyMeta meta =
     Some (fold (\<lambda>(k, v) newMeta. AList.update k v newMeta)
             (case meta of None \<Rightarrow> [] | Some m \<Rightarrow> m) [])"

definition DeepCopy :: "BlockFile \<Rightarrow> BlockFile" where
  "DeepCopy f = f\<lparr>Meta := copyMeta (Meta f)\<rparr>"

definition makeDataCacheEntry :: "int \<Rightarrow> int \<Rightarrow> DataCacheEntry" where
  "makeDataCacheEntry P partIdx =
     \<lparr>DataCacheEntry.Dirty = False, Flushing = False, PartIdx = partIdx,
      Data = [], Rest = replicate (nat P) 0\<rparr>"

text \<open>
  \<open>ensurePart\<close>: the loop appends \<open>nil\<close> until \<open>len(e.DataEntries) > partIdx\<close>; the index
  expressions that follow panic on a negative \<open>partIdx\<close>.
\<close>

definition ensurePart ::
  "int \<Rightarrow> int \<Rightarrow> bool \<Rightarrow> CacheEntry \<Rightarrow> (fault + DataCacheEntry option) \<times> CacheEntry" where
  "ensurePart P partIdx create e =
     (let des = DataEntries e @ replicate (nat (partIdx + 1) - length (DataEntries e)) None;
          e1 = e\<lparr>DataEntries := des\<rparr>
      in if partIdx < 0 then (Inl indexOutOfRange, e1)
         else let des' = (if create \<and> des ! nat partIdx = None
                          then des[nat partIdx := Some (makeDataCacheEntry P partIdx)]
                          else des)
              in (Inr (des' ! nat partIdx), e\<lparr>DataEntries := des'\<rparr>))"

text \<open>
  \<open>clonePart\<close>: \<open>copy(rtn.Data, dce.Data)\<close> copies \<open>min(len(rtn.Data), len(dce.Data))\<close>
  elements, and \<open>rtn.Data\<close> has length 0.
\<close>

definition clonePart :: "int \<Rightarrow> DataCacheEntry \<Rightarrow> DataCacheEntry" where
  "clonePart P dce =
     (let rtn = makeDataCacheEntry P (PartIdx dce)
      in if DataCacheEntry.Dirty dce then rtn\<lparr>DataCacheEntry.Dirty := True\<rparr> else rtn)"

definition writeToPart ::
  "int \<Rightarrow> int \<Rightarrow> byte list \<Rightarrow> DataCacheEntry \<Rightarrow> fault + (int \<times> DataCacheEntry)" where
  "writeToPart P offset data dce0 =
     (let dce = (if DataCacheEntry.Flushing dce0 then clonePart P dce0 else dce0);
          leftInPart = P - offset;
          toWrite = (if int (length data) > leftInPart then leftInPart else int (length data));
          arr = Data dce @ Rest dce;
          newLen = (if int (length (Data dce)) < offset + toWrite then offset + toWrite
                    else int (length (Data dce)))
      in if int (length arr) < newLen then Inl sliceOutOfRange
         else if offset < 0 \<or> toWrite < 0 then Inl sliceOutOfRange
         else Inr (toWrite,
                dce\<lparr>Data := take (nat offset) arr @ take (nat toWrite) data
                         @ drop (nat (offset + toWrite)) (take (nat newLen) arr),
                    Rest := drop (nat newLen) arr,
                    DataCacheEntry.Dirty := True\<rparr>))"

function writeAt_loop ::
  "int \<Rightarrow> int \<Rightarrow> byte list \<Rightarrow> CacheEntry \<Rightarrow> (fault + unit) \<times> CacheEntry" where
  "writeAt_loop P offset data entry =
     (if length data > 0 then
        (case FileEntry entry of
           None \<Rightarrow> (Inl nilDereference, entry)
         | Some fe \<Rightarrow>
             if P = 0 then (Inl divideByZero, entry)
             else if Circular (Opts (File fe)) \<and> go_div (MaxSize (Opts (File fe))) P = 0
             then (Inl divideByZero, entry)
             else
               let partIdx = (if Circular (Opts (File fe))
                              then go_mod (go_div offset P) (go_div (MaxSize (Opts (File fe))) P)
                              else go_div offset P);
                   partOffset = go_mod offset P
               in (case ensurePart P partIdx True entry of
                     (Inl err, entry1) \<Rightarrow> (Inl err, entry1)
                   | (Inr None, entry1) \<Rightarrow> (Inl nilDereference, entry1)
                   | (Inr (Some partData), entry1) \<Rightarrow>
                       (case writeToPart P partOffset data partData of
                          Inl err \<Rightarrow> (Inl err, entry1)
                        | Inr (nw, newDce) \<Rightarrow>
                            if nw \<le> 0 then (Inl NoReturn, entry1)
                            else writeAt_loop P (offset + nw) (drop (nat nw) data)
                                   (entry1\<lparr>DataEntries :=
                                      (DataEntries entry1)[nat partIdx := Some newDce]\<rparr>))))
      else (Inr (), entry))"
  by pat_completeness auto
termination
  by (relation "measure (\<lambda>(P, offset, data, entry). length data)") auto

declare writeAt_loop.simps [simp del]

definition writeAt :: "int \<Rightarrow> int \<Rightarrow> byte list \<Rightarrow> bool \<Rightarrow> CacheEntry \<Rightarrow> (fault + unit) \<times> CacheEntry" where
  "writeAt P offset data replace entry =
     writeAt_loop P offset data (if replace then entry\<lparr>DataEntries := []\<rparr> else entry)"

definition makeCacheEntry :: "string \<Rightarrow> string \<Rightarrow> CacheEntry" where
  "makeCacheEntry blockId name =
     \<lparr>CacheEntry.BlockId = blockId, Name = name, PinCount = 0, Deleted = False,
      WriteIntentions = [], FileEntry = None, DataEntries = []\<rparr>"

definition withLock ::
  "string \<Rightarrow> string \<Rightarrow> bool \<Rightarrow> (CacheEntry option \<Rightarrow> BlockStore \<Rightarrow> 'r \<times> BlockStore)
     \<Rightarrow> BlockStore \<Rightarrow> 'r \<times> BlockStore" where
  "withLock blockId name shouldCreate f s =
     (let s1 = (if map_of (Cache s) (blockId, name) = None \<and> shouldCreate
                then s\<lparr>Cache := AList.update (blockId, name) (makeCacheEntry blockId name) (Cache s)\<rparr>
                else s)
      in f (map_of (Cache s1) (blockId, name)) s1)"

text \<open>
  \<open>withLockExists\<close>: the callback works on the entry through its pointer; the model hands
  it the entry and stores what it returns.
\<close>

definition withLockExists ::
  "string \<Rightarrow> string \<Rightarrow> (CacheEntry \<Rightarrow> (fault + 'r) \<times> CacheEntry)
     \<Rightarrow> BlockStore \<Rightarrow> (fault + 'r) \<times> BlockStore" where
  "withLockExists blockId name f s =
     (case map_of (Cache s) (blockId, name) of
        None \<Rightarrow> (Inl (Error (ErrMsg ''file not found'')), s)
      | Some entry \<Rightarrow>
          if Deleted entry \<or> FileEntry entry = None then (Inl (Error (ErrMsg ''file not found'')), s)
          else (case f entry of
                  (r, entry') \<Rightarrow> (r, s\<lparr>Cache := AList.update (blockId, name) entry' (Cache s)\<rparr>)))"

definition pinCacheEntry :: "string \<Rightarrow> string \<Rightarrow> BlockStore \<Rightarrow> BlockStore" where
  "pinCacheEntry blockId name s =
     (let entry = (case map_of (Cache s) (blockId, name) of
                     None \<Rightarrow> makeCacheEntry blockId name
                   | Some e \<Rightarrow> e)
      in s\<lparr>Cache := AList.update (blockId, name) (entry\<lparr>PinCount := PinCount entry + 1\<rparr>) (Cache s)\<rparr>)"

definition setWriteIntention ::
  "string \<Rightarrow> string \<Rightarrow> WriteIntention \<Rightarrow> BlockStore \<Rightarrow> int \<times> BlockStore" where
  "setWriteIntention blockId name intention s =
     (case map_of (Cache s) (blockId, name) of
        None \<Rightarrow> (0, s)
      | Some entry \<Rightarrow>
          let intentionId = NextIntentionId s
          in (intentionId,
              s\<lparr>NextIntentionId := NextIntentionId s + 1,
                Cache := AList.update (blockId, name)
                  (entry\<lparr>WriteIntentions := AList.update intentionId intention (WriteIntentions entry)\<rparr>)
                  (Cache s)\<rparr>))"

definition clearWriteIntention :: "string \<Rightarrow> string \<Rightarrow> int \<Rightarrow> BlockStore \<Rightarrow> BlockStore" where
  "clearWriteIntention blockId name intentionId s =
     (case map_of (Cache s) (blockId, name) of
        None \<Rightarrow> s
      | Some entry \<Rightarrow>
          s\<lparr>Cache := AList.update (blockId, name)
               (entry\<lparr>WriteIntentions := AList.delete intentionId (WriteIntentions entry)\<rparr>)
               (Cache s)\<rparr>)"

definition unpinCacheEntry :: "string \<Rightarrow> string \<Rightarrow> BlockStore \<Rightarrow> BlockStore" where
  "unpinCacheEntry blockId name s =
     (case map_of (Cache s) (blockId, name) of
        None \<Rightarrow> s
      | Some entry \<Rightarrow>
          s\<lparr>Cache := AList.update (blockId, name) (entry\<lparr>PinCount := PinCount entry - 1\<rparr>) (Cache s)\<rparr>)"

definition getFileFromCache :: "string \<Rightarrow> string \<Rightarrow> BlockStore \<Rightarrow> BlockFile option \<times> bool" where
  "getFileFromCache blockId name s =
     (case map_of (Cache s) (blockId, name) of
        None \<Rightarrow> (None, False)
      | Some entry \<Rightarrow>
          if Deleted entry then (None, True)
          else (case FileEntry entry of
                  None \<Rightarrow> (None, False)
                | Some fe \<Rightarrow> (Some (DeepCopy (File fe)), True)))"

definition modifyFileData ::
  "(BlockFile \<Rightarrow> fault + BlockFile) \<Rightarrow> CacheEntry \<Rightarrow> (fault + unit) \<times> CacheEntry" where
  "modifyFileData fn e =
     (case FileEntry e of
        None \<Rightarrow> (Inl nilDereference, e)
      | Some fe \<Rightarrow>
          let fileEntry = (if FileCacheEntry.Flushing fe
                           then \<lparr>FileCacheEntry.Dirty = False, Flushing = False,
                                 File = DeepCopy (File fe)\<rparr>
                           else fe);
              fileEntry = fileEntry\<lparr>FileCacheEntry.Dirty := True\<rparr>
          in (case fn (File fileEntry) of
                Inl err \<Rightarrow> (Inl err, e\<lparr>FileEntry := Some fileEntry\<rparr>)
              | Inr file \<Rightarrow> (Inr (), e\<lparr>FileEntry := Some (fileEntry\<lparr>File := file\<rparr>)\<rparr>)))"

section \<open>The block store\<close>

definition MakeFile_locked ::
  "string \<Rightarrow> string \<Rightarrow> CacheEntry option \<Rightarrow> BlockStore \<Rightarrow> fault option \<times> BlockStore" where
  "MakeFile_locked blockId name entry s =
     (case entry of
        None \<Rightarrow> (None, s)
      | Some e \<Rightarrow>
          if \<not> Deleted e then (Some (Error (ErrMsg ''file exists'')), s)
          else if PinCount e = 0 \<and> length (WriteIntentions e) = 0
          then (None, s\<lparr>Cache := AList.delete (blockId, name) (Cache s)\<rparr>)
          else (Some (Error (ErrMsg ''file is deleted but has active requests'')), s))"

text \<open>\<open>now\<close> is the value of \<open>time.Now().UnixMilli()\<close>.\<close>

definition MakeFile ::
  "int \<Rightarrow> 'd backing \<Rightarrow> int \<Rightarrow> string \<Rightarrow> string \<Rightarrow> FileMeta \<Rightarrow> FileOptsType
     \<Rightarrow> BlockStore \<times> 'd \<Rightarrow> (fault + unit) \<times> BlockStore \<times> 'd" where
  "MakeFile P db now blockId name meta opts0 sd =
     (case sd of (s, d) \<Rightarrow>
        if MaxSize opts0 < 0 then (Inl (Error (ErrMsg ''max size must be non-negative'')), s, d)
        else if Circular opts0 \<and> MaxSize opts0 \<le> 0
        then (Inl (Error (ErrMsg ''circular file must have a max size'')), s, d)
        else if Circular opts0 \<and> IJson opts0
        then (Inl (Error (ErrMsg ''circular file cannot be ijson'')), s, d)
        else if Circular opts0 \<and> P = 0 then (Inl divideByZero, s, d)
        else
          let opts = (if Circular opts0 \<and> go_mod (MaxSize opts0) P \<noteq> 0
                      then opts0\<lparr>MaxSize := wrap64 (wrap64 (go_div (MaxSize opts0) P + 1) * P)\<rparr>
                      else opts0)
          in (case withLock blockId name False (MakeFile_locked blockId name) s of
                (Some cacheErr, s1) \<Rightarrow> (Inl cacheErr, s1, d)
              | (None, s1) \<Rightarrow>
                  (case dbInsertFile db
                          \<lparr>BlockFile.BlockId = blockId, Name = name, Opts = opts,
                           CreatedTs = now, Size = 0, ModTs = now, Meta = meta\<rparr> d of
                     (Inl err, d1) \<Rightarrow> (Inl (Error err), s1, d1)
                   | (Inr u, d1) \<Rightarrow> (Inr (), s1, d1))))"

definition DeleteFile_locked ::
  "string \<Rightarrow> string \<Rightarrow> CacheEntry option \<Rightarrow> BlockStore \<Rightarrow> unit \<times> BlockStore" where
  "DeleteFile_locked blockId name entry s =
     (case entry of
        None \<Rightarrow> ((), s)
      | Some e \<Rightarrow>
          if PinCount e > 0 \<or> length (WriteIntentions e) > 0
          then ((), s\<lparr>Cache := AList.update (blockId, name) (e\<lparr>Deleted := True\<rparr>) (Cache s)\<rparr>)
          else ((), s\<lparr>Cache := AList.delete (blockId, name) (Cache s)\<rparr>))"

definition DeleteFile ::
  "'d backing \<Rightarrow> string \<Rightarrow> string \<Rightarrow> BlockStore \<times> 'd \<Rightarrow> (fault + unit) \<times> BlockStore \<times> 'd" where
  "DeleteFile db blockId name sd =
     (case sd of (s, d) \<Rightarrow>
        (case dbDeleteFile db blockId name d of
           (Inl err, d1) \<Rightarrow> (Inl (Error (ErrWrap ''error deleting file'' err)), s, d1)
         | (Inr u, d1) \<Rightarrow>
             (Inr (), snd (withLock blockId name False (DeleteFile_locked blockId name) s), d1)))"

text \<open>
  \<open>DeleteBlock\<close>: the loop calls \<open>DeleteFile\<close> and drops the error value it returns; a
  call that does not return normally ends the loop.
\<close>

fun DeleteBlock_loop ::
  "'d backing \<Rightarrow> string \<Rightarrow> string list \<Rightarrow> BlockStore \<times> 'd \<Rightarrow> (fault + unit) \<times> BlockStore \<times> 'd" where
  "DeleteBlock_loop db blockId [] sd = (Inr (), sd)"
| "DeleteBlock_loop db blockId (name # fileNames) sd =
     (case DeleteFile db blockId name sd of
        (Inl (RuntimePanic p), sd1) \<Rightarrow> (Inl (RuntimePanic p), sd1)
      | (Inl NoReturn, sd1) \<Rightarrow> (Inl NoReturn, sd1)
      | (Inl (Error err), sd1) \<Rightarrow> DeleteBlock_loop db blockId fileNames sd1
      | (Inr u, sd1) \<Rightarrow> DeleteBlock_loop db blockId fileNames sd1)"

definition DeleteBlock ::
  "'d backing \<Rightarrow> string \<Rightarrow> BlockStore \<times> 'd \<Rightarrow> (fault + unit) \<times> BlockStore \<times> 'd" where
  "DeleteBlock db blockId sd =
     (case dbGetBlockFileNames db blockId (snd sd) of
        Inl err \<Rightarrow> (Inl (Error (ErrWrap ''error getting block files'' err)), sd)
      | Inr fileNames \<Rightarrow> DeleteBlock_loop db blockId fileNames sd)"


text \<open>
  \<open>WriteMeta\<close>: the function handed to \<open>modifyFileData\<close>. Assigning to a key of a \<open>nil\<close>
  map panics; \<open>delete\<close> on a \<open>nil\<close> map does nothing.
\<close>

fun WriteMeta_merge :: "(string \<times> any) list \<Rightarrow> FileMeta \<Rightarrow> fault + FileMeta" where
  "WriteMeta_merge [] fileMeta = Inr fileMeta"
| "WriteMeta_merge ((k, v) # meta) fileMeta =
     (if v = AnyNil then WriteMeta_merge meta (map_option (AList.delete k) fileMeta)
      else (case fileMeta of
              None \<Rightarrow> Inl nilMapAssignment
            | Some m \<Rightarrow> WriteMeta_merge meta (Some (AList.update k v m))))"

definition WriteMeta_fn :: "FileMeta \<Rightarrow> bool \<Rightarrow> BlockFile \<Rightarrow> fault + BlockFile" where
  "WriteMeta_fn meta merge file =
     (if merge then
        (case WriteMeta_merge (case meta of None \<Rightarrow> [] | Some m \<Rightarrow> m) (Meta file) of
           Inl err \<Rightarrow> Inl err
         | Inr fileMeta \<Rightarrow> Inr (file\<lparr>Meta := fileMeta\<rparr>))
      else Inr (file\<lparr>Meta := meta\<rparr>))"

definition loadFileInfo_locked ::
  "string \<Rightarrow> string \<Rightarrow> BlockFile \<Rightarrow> CacheEntry option \<Rightarrow> BlockStore
     \<Rightarrow> (fault + BlockFile) \<times> BlockStore" where
  "loadFileInfo_locked blockId name dbFile entry s =
     (case entry of
        None \<Rightarrow> (Inl nilDereference, s)
      | Some e \<Rightarrow>
          if Deleted e then (Inl (Error (ErrMsg ''file is deleted'')), s)
          else (case FileEntry e of
                  Some fe \<Rightarrow> (Inr (DeepCopy (File fe)), s)
                | None \<Rightarrow>
                    (Inr dbFile,
                     s\<lparr>Cache := AList.update (blockId, name)
                          (e\<lparr>FileEntry := Some \<lparr>FileCacheEntry.Dirty = False, Flushing = False,
                                                File = DeepCopy dbFile\<rparr>\<rparr>)
                          (Cache s)\<rparr>)))"

definition loadFileInfo ::
  "'d backing \<Rightarrow> string \<Rightarrow> string \<Rightarrow> 'd \<Rightarrow> BlockStore \<Rightarrow> (fault + BlockFile) \<times> BlockStore" where
  "loadFileInfo db blockId name d s =
     (case getFileFromCache blockId name s of
        (file, True) \<Rightarrow>
          (case file of
             None \<Rightarrow> (Inl (Error (ErrMsg ''file not found'')), s)
           | Some f \<Rightarrow> (Inr f, s))
      | (file, False) \<Rightarrow>
          (case dbGetBlockFile db blockId name d of
             Inl err \<Rightarrow> (Inl (Error (ErrWrap ''error getting file'' err)), s)
           | Inr None \<Rightarrow> (Inl (Error (ErrMsg ''file not found'')), s)
           | Inr (Some dbFile) \<Rightarrow>
               withLock blockId name True (loadFileInfo_locked blockId name dbFile) s))"

definition WriteMeta ::
  "'d backing \<Rightarrow> string \<Rightarrow> string \<Rightarrow> FileMeta \<Rightarrow> bool \<Rightarrow> 'd \<Rightarrow> BlockStore
     \<Rightarrow> (fault + unit) \<times> BlockStore" where
  "WriteMeta db blockId name meta merge d s =
     (case (case loadFileInfo db blockId name d (pinCacheEntry blockId name s) of
              (Inl err, s2) \<Rightarrow> (Inl (errorf ''error loading file info'' err), s2)
            | (Inr file, s2) \<Rightarrow>
                withLockExists blockId name (modifyFileData (WriteMeta_fn meta merge)) s2) of
        (r, s3) \<Rightarrow> (r, unpinCacheEntry blockId name s3))"

definition partIdxAtOffset :: "int \<Rightarrow> BlockFile \<Rightarrow> int \<Rightarrow> fault + int" where
  "partIdxAtOffset P f offset =
     (if P = 0 then Inl divideByZero
      else if Circular (Opts f)
      then (if go_div (MaxSize (Opts f)) P = 0 then Inl divideByZero
            else Inr (go_mod (go_div offset P) (go_div (MaxSize (Opts f)) P)))
      else Inr (go_div offset P))"

definition getLastIncompletePartNum :: "int \<Rightarrow> BlockFile \<Rightarrow> fault + int" where
  "getLastIncompletePartNum P f =
     (if P = 0 then Inl divideByZero
      else if go_mod (Size f) P = 0 then Inr NoPartIdx
      else partIdxAtOffset P f (Size f))"

definition maxOfIntArr :: "int list \<Rightarrow> int" where
  "maxOfIntArr arr =
     (case arr of
        [] \<Rightarrow> 0
      | x # xs \<Rightarrow> fold (\<lambda>v m. if v > m then v else m) xs x)"

fun loadDataParts_install ::
  "(int \<times> DataCacheEntry) list \<Rightarrow> CacheEntry \<Rightarrow> (fault + unit) \<times> CacheEntry" where
  "loadDataParts_install [] entry = (Inr (), entry)"
| "loadDataParts_install ((partIdx, partData) # partDataMap) entry =
     (if partIdx < 0 \<or> int (length (DataEntries entry)) \<le> partIdx then (Inl indexOutOfRange, entry)
      else if DataEntries entry ! nat partIdx \<noteq> None
      then loadDataParts_install partDataMap entry
      else loadDataParts_install partDataMap
             (entry\<lparr>DataEntries := (DataEntries entry)[nat partIdx := Some partData]\<rparr>))"

definition loadDataParts_locked ::
  "int \<Rightarrow> int \<Rightarrow> (int \<times> DataCacheEntry) list \<Rightarrow> CacheEntry \<Rightarrow> (fault + unit) \<times> CacheEntry" where
  "loadDataParts_locked P maxPart partDataMap entry =
     (case ensurePart P maxPart False entry of
        (Inl err, entry1) \<Rightarrow> (Inl err, entry1)
      | (Inr part, entry1) \<Rightarrow> loadDataParts_install partDataMap entry1)"

definition loadDataParts ::
  "int \<Rightarrow> 'd backing \<Rightarrow> string \<Rightarrow> string \<Rightarrow> int list \<Rightarrow> 'd \<Rightarrow> BlockStore
     \<Rightarrow> (fault + unit) \<times> BlockStore" where
  "loadDataParts P db blockId name parts d s =
     (case dbGetFileParts db blockId name parts d of
        Inl err \<Rightarrow> (Inl (Error (ErrWrap ''error getting file part'' err)), s)
      | Inr partDataMap \<Rightarrow>
          withLockExists blockId name
            (loadDataParts_locked P (maxOfIntArr parts) partDataMap) s)"

definition writeAtToCache ::
  "int \<Rightarrow> int \<Rightarrow> int \<Rightarrow> byte list \<Rightarrow> bool \<Rightarrow> CacheEntry \<Rightarrow> (fault + unit) \<times> CacheEntry" where
  "writeAtToCache P now offset data replace entry =
     (let endWrite = offset + int (length data)
      in (case writeAt P offset data replace entry of
            (Inl err, entry1) \<Rightarrow> (Inl err, entry1)
          | (Inr u, entry1) \<Rightarrow>
              modifyFileData
                (\<lambda>file. Inr (file\<lparr>Size := (if endWrite > Size file \<or> replace then endWrite
                                              else Size file),
                                    ModTs := now\<rparr>))
                entry1))"

definition incompletePartsFromMap :: "int \<Rightarrow> (int \<times> int) list \<Rightarrow> int list" where
  "incompletePartsFromMap P partMap = map fst (filter (\<lambda>(partIdx, size). size \<noteq> P) partMap)"

function computePartMap_loop ::
  "int \<Rightarrow> BlockFile \<Rightarrow> int \<Rightarrow> int \<Rightarrow> int \<Rightarrow> (int \<times> int) list \<Rightarrow> fault + (int \<times> int) list" where
  "computePartMap_loop P file startOffset endOffset testOffset partMap =
     (if testOffset < endOffset then
        (case partIdxAtOffset P file testOffset of
           Inl err \<Rightarrow> Inl err
         | Inr partIdx \<Rightarrow>
             let partStartOffset = testOffset;
                 partEndOffset = testOffset + P;
                 partWriteStartOffset =
                   (if startOffset > partStartOffset \<and> startOffset < partEndOffset
                    then startOffset - partStartOffset else 0);
                 partWriteEndOffset =
                   (if endOffset > partStartOffset \<and> endOffset < partEndOffset
                    then endOffset - partStartOffset else P)
             in if P \<le> 0 then Inl NoReturn
                else computePartMap_loop P file startOffset endOffset (testOffset + P)
                       (AList.update partIdx (partWriteEndOffset - partWriteStartOffset) partMap))
      else Inr partMap)"
  by pat_completeness auto
termination
  by (relation "measure (\<lambda>(P, file, startOffset, endOffset, testOffset, partMap).
                  nat (endOffset - testOffset))") auto

declare computePartMap_loop.simps [simp del]

definition computePartMap :: "int \<Rightarrow> BlockFile \<Rightarrow> int \<Rightarrow> int \<Rightarrow> fault + (int \<times> int) list" where
  "computePartMap P file startOffset size' =
     (if P = 0 then Inl divideByZero
      else computePartMap_loop P file startOffset (startOffset + size')
             (startOffset - go_mod startOffset P) [])"

definition WriteFile ::
  "int \<Rightarrow> 'd backing \<Rightarrow> int \<Rightarrow> string \<Rightarrow> string \<Rightarrow> byte list \<Rightarrow> 'd \<Rightarrow> BlockStore
     \<Rightarrow> (fault + unit) \<times> BlockStore" where
  "WriteFile P db now blockId name data d s =
     (case setWriteIntention blockId name \<lparr>Parts = [], Append = False, Replace = True\<rparr>
             (pinCacheEntry blockId name s) of
        (intentionId, s2) \<Rightarrow>
          (case (case loadFileInfo db blockId name d s2 of
                   (Inl err, s3) \<Rightarrow> (Inl (errorf ''error loading file info'' err), s3)
                 | (Inr file, s3) \<Rightarrow>
                     withLockExists blockId name (writeAtToCache P now 0 data True) s3) of
             (r, s4) \<Rightarrow>
               (r, unpinCacheEntry blockId name (clearWriteIntention blockId name intentionId s4))))"

text \<open>
  \<open>WriteAt\<close>, from the registration of the write intention on: the deferred
  \<open>clearWriteIntention\<close> runs however the rest ends.
\<close>

definition WriteAt_write ::
  "int \<Rightarrow> 'd backing \<Rightarrow> int \<Rightarrow> string \<Rightarrow> string \<Rightarrow> BlockFile \<Rightarrow> int \<Rightarrow> byte list \<Rightarrow> 'd
     \<Rightarrow> BlockStore \<Rightarrow> (fault + unit) \<times> BlockStore" where
  "WriteAt_write P db now blockId name file offset data d s =
     (case computePartMap P file offset (int (length data)) of
        Inl err \<Rightarrow> (Inl err, s)
      | Inr partMap \<Rightarrow>
          (case setWriteIntention blockId name
                  \<lparr>Parts = partMap, Append = False, Replace = False\<rparr> s of
             (intentionId, s3) \<Rightarrow>
               (case (case loadDataParts P db blockId name
                             (incompletePartsFromMap P partMap) d s3 of
                        (Inl err, s4) \<Rightarrow> (Inl (errorf ''error loading data parts'' err), s4)
                      | (Inr u, s4) \<Rightarrow>
                          withLockExists blockId name (writeAtToCache P now offset data False) s4) of
                  (r, s5) \<Rightarrow> (r, clearWriteIntention blockId name intentionId s5))))"

definition WriteAt_pinned ::
  "int \<Rightarrow> 'd backing \<Rightarrow> int \<Rightarrow> string \<Rightarrow> string \<Rightarrow> int \<Rightarrow> byte list \<Rightarrow> 'd
     \<Rightarrow> BlockStore \<Rightarrow> (fault + unit) \<times> BlockStore" where
  "WriteAt_pinned P db now blockId name offset data d s =
     (case loadFileInfo db blockId name d s of
        (Inl err, s2) \<Rightarrow> (Inl (errorf ''error loading file info'' err), s2)
      | (Inr file, s2) \<Rightarrow>
          if offset < 0 then (Inl (Error (ErrMsg ''offset must be non-negative'')), s2)
          else if offset > Size file
          then (Inl (Error (ErrMsg ''offset is past the end of the file'')), s2)
          else if Circular (Opts file)
          then (let startCirFileOffset = Size file - MaxSize (Opts file)
                in if offset + int (length data) < startCirFileOffset then (Inr (), s2)
                   else if offset < startCirFileOffset
                   then (let amtBeforeStart = startCirFileOffset - offset
                         in WriteAt_write P db now blockId name file (offset + amtBeforeStart)
                              (drop (nat amtBeforeStart) data) d s2)
                   else WriteAt_write P db now blockId name file offset data d s2)
          else WriteAt_write P db now blockId name file offset data d s2)"

definition WriteAt ::
  "int \<Rightarrow> 'd backing \<Rightarrow> int \<Rightarrow> string \<Rightarrow> string \<Rightarrow> int \<Rightarrow> byte list \<Rightarrow> 'd
     \<Rightarrow> BlockStore \<Rightarrow> (fault + unit) \<times> BlockStore" where
  "WriteAt P db now blockId name offset data d s =
     (case WriteAt_pinned P db now blockId name offset data d (pinCacheEntry blockId name s) of
        (r, s') \<Rightarrow> (r, unpinCacheEntry blockId name s'))"

text \<open>
  \<open>ReadAt\<close>: the list of parts requested from the backing store, from the offset as
  adjusted for a circular file.
\<close>

function ReadAt_partsNeeded_loop ::
  "int \<Rightarrow> BlockFile \<Rightarrow> int \<Rightarrow> int \<Rightarrow> int list \<Rightarrow> fault + int list" where
  "ReadAt_partsNeeded_loop P file endOffsetOfLastPart i partsNeeded =
     (if i < endOffsetOfLastPart then
        (case partIdxAtOffset P file i of
           Inl err \<Rightarrow> Inl err
         | Inr partIdx \<Rightarrow>
             if P \<le> 0 then Inl NoReturn
             else ReadAt_partsNeeded_loop P file endOffsetOfLastPart (i + P)
                    (partsNeeded @ [partIdx]))
      else Inr partsNeeded)"
  by pat_completeness auto
termination
  by (relation "measure (\<lambda>(P, file, endOffsetOfLastPart, i, partsNeeded).
                  nat (endOffsetOfLastPart - i))") auto

declare ReadAt_partsNeeded_loop.simps [simp del]

definition ReadAt_partsNeeded :: "int \<Rightarrow> BlockFile \<Rightarrow> int \<Rightarrow> int \<Rightarrow> fault + int list" where
  "ReadAt_partsNeeded P file offset size' =
     (if P = 0 then Inl divideByZero
      else let lastPartOffset = go_mod (offset + size') P;
               endOffsetOfLastPart = offset + size' - lastPartOffset + P
           in ReadAt_partsNeeded_loop P file endOffsetOfLastPart offset [])"










text \<open>
  \<open>FlushCache\<close>: the scan collects the keys of the entries with a dirty buffer; the
  function then returns \<open>nil\<close>.
\<close>

definition FlushCache_dirty :: "CacheEntry \<Rightarrow> bool" where
  "FlushCache_dirty entry =
     ((case FileEntry entry of None \<Rightarrow> False | Some fe \<Rightarrow> FileCacheEntry.Dirty fe)
      \<or> list_ex (\<lambda>dataEntry. case dataEntry of None \<Rightarrow> False
                               | Some dce \<Rightarrow> DataCacheEntry.Dirty dce) (DataEntries entry))"

definition FlushCache_scan :: "BlockStore \<Rightarrow> cacheKey list" where
  "FlushCache_scan s = map fst (filter (\<lambda>(key, entry). FlushCache_dirty entry) (Cache s))"

definition FlushCache :: "BlockStore \<Rightarrow> (fault + unit) \<times> BlockStore" where
  "FlushCache s = (let dirtyCacheKeys = FlushCache_scan s in (Inr (), s))"

section \<open>A backing store in memory\<close>

text \<open>
  Modelled from the spec: the backing store's functions are not among the source files.
  This is the contract of the spec's section on external interfaces, on two tables:
  \<open>insertFile\<close> stores a descriptor, \<open>deleteFile\<close> removes it and its parts, \<open>getFile\<close>
  returns the descriptor or none, \<open>listFileNames\<close> lists a namespace, and \<open>getParts\<close>
  returns the requested parts, omitting absent ones. It instantiates the parameter
  \<open>db\<close> in the examples; the theorems hold for every backing store.
\<close>

record memdb_state =
  dbFiles :: "(cacheKey \<times> BlockFile) list"
  dbParts :: "((cacheKey \<times> int) \<times> DataCacheEntry) list"

definition memdb :: "memdb_state backing" where
  "memdb =
     \<lparr>dbInsertFile = (\<lambda>file d.
        (Inr (), d\<lparr>dbFiles := AList.update (BlockFile.BlockId file, BlockFile.Name file) file
                                 (dbFiles d)\<rparr>)),
      dbDeleteFile = (\<lambda>blockId name d.
        (Inr (), d\<lparr>dbFiles := AList.delete (blockId, name) (dbFiles d),
                    dbParts := filter (\<lambda>(k, p). fst k \<noteq> (blockId, name)) (dbParts d)\<rparr>)),
      dbGetBlockFileNames = (\<lambda>blockId d.
        Inr (map (\<lambda>(k, f). snd k) (filter (\<lambda>(k, f). fst k = blockId) (dbFiles d)))),
      dbGetBlockFile = (\<lambda>blockId name d. Inr (map_of (dbFiles d) (blockId, name))),
      dbGetFileParts = (\<lambda>blockId name parts d.
        Inr (concat (map (\<lambda>i. case map_of (dbParts d) ((blockId, name), i) of
                                  None \<Rightarrow> []
                                | Some p \<Rightarrow> [(i, p)])
                       (remdups parts))))\<rparr>"

text \<open>The same store when it is unreachable: inserting and deleting fail.\<close>

definition memdb_down :: "memdb_state backing" where
  "memdb_down =
     memdb\<lparr>dbInsertFile := (\<lambda>file d. (Inl (ErrMsg ''backing store unavailable''), d)),
           dbDeleteFile := (\<lambda>blockId name d. (Inl (ErrMsg ''backing store unavailable''), d))\<rparr>"

definition emptyStore :: BlockStore where
  "emptyStore = \<lparr>Cache = [], NextIntentionId = 1\<rparr>"

definition emptyDb :: memdb_state where
  "emptyDb = \<lparr>dbFiles = [], dbParts = []\<rparr>"

section \<open>Specification-level notions\<close>

text \<open>
  The part containing a byte, in the spec's words: \<open>floor(byte / PartSize)\<close>, folded
  modulo \<open>maxSize / PartSize\<close> for a circular file.
\<close>

definition partContaining :: "int \<Rightarrow> BlockFile \<Rightarrow> int \<Rightarrow> int" where
  "partContaining P f byte =
     (if Circular (Opts f) then (byte div P) mod (MaxSize (Opts f) div P) else byte div P)"

text \<open>Example files: part size 16, a circular file of two parts and a plain file.\<close>

definition circularFile :: "int \<Rightarrow> BlockFile" where
  "circularFile sz =
     \<lparr>BlockFile.BlockId = ''b'', Name = ''f'',
      Opts = \<lparr>MaxSize = 32, Circular = True, IJson = False\<rparr>,
      CreatedTs = 1000, Size = sz, ModTs = 1000, Meta = None\<rparr>"

definition plainFile :: "int \<Rightarrow> BlockFile" where
  "plainFile sz =
     \<lparr>BlockFile.BlockId = ''b'', Name = ''f'',
      Opts = \<lparr>MaxSize = 0, Circular = False, IJson = False\<rparr>,
      CreatedTs = 1000, Size = sz, ModTs = 1000, Meta = None\<rparr>"

text \<open>
  Modelled from the spec: the source has error messages and no error kinds. The spec's
  kind Validation covers bad options, a negative offset and an offset past the end.
\<close>

definition isValidation :: "error \<Rightarrow> bool" where
  "isValidation e =
     (e = ErrMsg ''max size must be non-negative''
      \<or> e = ErrMsg ''circular file must have a max size''
      \<or> e = ErrMsg ''circular file cannot be ijson''
      \<or> e = ErrMsg ''offset must be non-negative''
      \<or> e = ErrMsg ''offset is past the end of the file'')"

text \<open>The options that none of the three checks of \<open>MakeFile\<close> rejects.\<close>

definition passesValidation :: "FileOptsType \<Rightarrow> bool" where
  "passesValidation opts =
     (\<not> MaxSize opts < 0 \<and> \<not> (Circular opts \<and> MaxSize opts \<le> 0)
      \<and> \<not> (Circular opts \<and> IJson opts))"

text \<open>The next multiple of the part size, the number itself when it is one.\<close>

definition roundUpToPart :: "int \<Rightarrow> int \<Rightarrow> int" where
  "roundUpToPart P m = ((m + P - 1) div P) * P"

text \<open>A deleted entry that nothing refers to any more.\<close>

definition tombstone :: "string \<Rightarrow> string \<Rightarrow> BlockStore \<Rightarrow> bool" where
  "tombstone blockId name s =
     (case map_of (Cache s) (blockId, name) of
        None \<Rightarrow> False
      | Some e \<Rightarrow> Deleted e \<and> PinCount e = 0 \<and> WriteIntentions e = [])"

text \<open>Every file buffer and part buffer of the cache is neither dirty nor flushing.\<close>

definition buffersClean :: "BlockStore \<Rightarrow> bool" where
  "buffersClean s =
     list_all (\<lambda>(key, entry).
        (case FileEntry entry of
           None \<Rightarrow> True
         | Some fe \<Rightarrow> FileCacheEntry.Dirty fe = False \<and> FileCacheEntry.Flushing fe = False)
        \<and> list_all (\<lambda>dataEntry. case dataEntry of
                        None \<Rightarrow> True
                      | Some dce \<Rightarrow> DataCacheEntry.Dirty dce = False
                                    \<and> DataCacheEntry.Flushing dce = False)
             (DataEntries entry))
       (Cache s)"

text \<open>Example states: a store holding a tombstone, a backing store holding one empty file,
  and the store after two bytes were written to that file.\<close>

definition tombstoneStore :: BlockStore where
  "tombstoneStore =
     \<lparr>Cache = [((''b'', ''f''), (makeCacheEntry ''b'' ''f'')\<lparr>Deleted := True\<rparr>)],
      NextIntentionId = 1\<rparr>"

definition dbWithFile :: memdb_state where
  "dbWithFile = \<lparr>dbFiles = [((''b'', ''f''), plainFile 0)], dbParts = []\<rparr>"

definition dirtyStore :: BlockStore where
  "dirtyStore =
     \<lparr>Cache = [((''b'', ''f''),
         \<lparr>CacheEntry.BlockId = ''b'', Name = ''f'', PinCount = 0, Deleted = False,
          WriteIntentions = [],
          FileEntry = Some \<lparr>FileCacheEntry.Dirty = True, Flushing = False,
                             File = (plainFile 2)\<lparr>ModTs := 1001, Meta := Some []\<rparr>\<rparr>,
          DataEntries = [Some \<lparr>DataCacheEntry.Dirty = True, Flushing = False, PartIdx = 0,
                                Data = [104, 105], Rest = replicate 14 0\<rparr>]\<rparr>)],
      NextIntentionId = 2\<rparr>"







text \<open>Example states: the store after a meta was set, and a circular file of two parts
  (part size 16) before and after 40 bytes \<open>A\<close> were written to it.\<close>

definition metaStoreA :: BlockStore where
  "metaStoreA =
     \<lparr>Cache = [((''b'', ''f''),
         \<lparr>CacheEntry.BlockId = ''b'', Name = ''f'', PinCount = 0, Deleted = False,
          WriteIntentions = [],
          FileEntry = Some \<lparr>FileCacheEntry.Dirty = True, Flushing = False,
                             File = (plainFile 0)\<lparr>Meta := Some [(''k2'', AnyStr ''v''),
                                                               (''k3'', AnyInt 3)]\<rparr>\<rparr>,
          DataEntries = []\<rparr>)],
      NextIntentionId = 1\<rparr>"

definition dbCircular0 :: memdb_state where
  "dbCircular0 = \<lparr>dbFiles = [((''b'', ''f''), circularFile 0)], dbParts = []\<rparr>"

definition part16 :: "int \<Rightarrow> DataCacheEntry" where
  "part16 i = \<lparr>DataCacheEntry.Dirty = True, Flushing = False, PartIdx = i,
               Data = replicate 16 65, Rest = []\<rparr>"

definition storeA40 :: BlockStore where
  "storeA40 =
     \<lparr>Cache = [((''b'', ''f''),
         \<lparr>CacheEntry.BlockId = ''b'', Name = ''f'', PinCount = 0, Deleted = False,
          WriteIntentions = [],
          FileEntry = Some \<lparr>FileCacheEntry.Dirty = True, Flushing = False,
                             File = (circularFile 40)\<lparr>ModTs := 1001, Meta := Some []\<rparr>\<rparr>,
          DataEntries = [Some (part16 0), Some (part16 1)]\<rparr>)],
      NextIntentionId = 2\<rparr>"


section \<open>Properties\<close>

subsection \<open>Go arithmetic on non-negative numbers\<close>

lemma go_div_nonneg: "0 \<le> a \<Longrightarrow> 0 < b \<Longrightarrow> go_div a b = a div b"
  by (cases "a = 0") (simp_all add: go_div_def)

lemma go_mod_nonneg: "0 \<le> a \<Longrightarrow> 0 < b \<Longrightarrow> go_mod a b = a mod b"
  by (simp add: go_mod_def go_div_nonneg minus_mult_div_eq_mod)

lemma div_pred_same:
  fixes s P :: int
  assumes "0 < P" "s mod P \<noteq> 0"
  shows "(s - 1) div P = s div P"
proof (rule int_div_pos_eq)
  show "s - 1 = P * (s div P) + (s mod P - 1)"
    by simp
  have "0 \<le> s mod P"
    using assms(1) by simp
  then show "0 \<le> s mod P - 1"
    using assms(2) by simp
  have "s mod P < P"
    using assms(1) by simp
  then show "s mod P - 1 < P"
    by simp
qed

lemma maxPart_pos: "0 < P \<Longrightarrow> P \<le> m \<Longrightarrow> 0 < m div (P::int)"
  by (simp add: pos_imp_zdiv_pos_iff)

subsection \<open>The last incomplete part\<close>

text \<open>
  Claim C9. For a file of non-negative size (a circular one with \<open>maxSize\<close> of at least one
  part, as \<open>MakeFile\<close> creates them), \<open>getLastIncompletePartNum\<close> returns the index of the
  part containing byte \<open>size - 1\<close>, folded for a circular file, when \<open>size\<close> is not a
  multiple of the part size, and \<open>NoPartIdx\<close> when it is.
\<close>

theorem getLastIncompletePartNum_correct:
  assumes "0 < P" "0 \<le> Size f" "\<not> Circular (Opts f) \<or> P \<le> MaxSize (Opts f)"
  shows "getLastIncompletePartNum P f =
           Inr (if Size f mod P = 0 then NoPartIdx else partContaining P f (Size f - 1))"
proof (cases "Size f mod P = 0")
  case True
  then show ?thesis
    using assms by (simp add: getLastIncompletePartNum_def go_mod_nonneg)
next
  case False
  have d: "(Size f - 1) div P = Size f div P"
    using assms(1) False by (rule div_pred_same)
  have q: "0 \<le> Size f div P"
    using assms by (simp add: pos_imp_zdiv_nonneg_iff)
  show ?thesis
  proof (cases "Circular (Opts f)")
    case True
    then have m: "0 < MaxSize (Opts f) div P" "0 \<le> MaxSize (Opts f)"
      using assms maxPart_pos by auto
    show ?thesis
      using assms False True m q d
      by (simp add: getLastIncompletePartNum_def partIdxAtOffset_def partContaining_def
          go_mod_nonneg go_div_nonneg)
  next
    case nc: False
    show ?thesis
      using assms False nc d
      by (simp add: getLastIncompletePartNum_def partIdxAtOffset_def partContaining_def
          go_mod_nonneg go_div_nonneg)
  qed
qed

theorem getLastIncompletePartNum_witness:
  "getLastIncompletePartNum 16 (circularFile 40) = Inr 0
   \<and> getLastIncompletePartNum 16 (plainFile 40) = Inr 2
   \<and> getLastIncompletePartNum 16 (plainFile 32) = Inr NoPartIdx"
  using getLastIncompletePartNum_correct [of 16 "circularFile 40"]
    getLastIncompletePartNum_correct [of 16 "plainFile 40"]
    getLastIncompletePartNum_correct [of 16 "plainFile 32"]
  by (simp add: partContaining_def circularFile_def plainFile_def)

subsection \<open>Creating a file\<close>

lemma wrap64_id: "- (2 ^ 63) \<le> x \<Longrightarrow> x < 2 ^ 63 \<Longrightarrow> wrap64 x = x"
  by (simp add: wrap64_def)

lemma roundUp_multiple:
  fixes m P :: int
  assumes "0 < P" "m mod P = 0"
  shows "roundUpToPart P m = m"
proof -
  have "P dvd m"
    using assms(2) by (simp add: mod_eq_0_iff_dvd)
  then have e: "m div P * P = m"
    by (rule dvd_div_mult_self)
  have "(m + P - 1) div P = m div P"
  proof (rule int_div_pos_eq)
    show "m + P - 1 = P * (m div P) + (P - 1)"
      using e by (simp add: mult.commute)
    show "0 \<le> P - 1" "P - 1 < P" using assms(1) by simp_all
  qed
  then show ?thesis
    using e by (simp add: roundUpToPart_def)
qed

lemma roundUp_nonmultiple:
  fixes m P :: int
  assumes "0 < P" "m mod P \<noteq> 0"
  shows "roundUpToPart P m = (m div P + 1) * P"
proof -
  have "(m + P - 1) div P = m div P + 1"
  proof (rule int_div_pos_eq)
    show "m + P - 1 = P * (m div P + 1) + (m mod P - 1)"
      by (simp add: algebra_simps)
    have "0 \<le> m mod P" using assms(1) by simp
    then show "0 \<le> m mod P - 1" using assms(2) by simp
    have "m mod P < P" using assms(1) by simp
    then show "m mod P - 1 < P" by simp
  qed
  then show ?thesis
    by (simp add: roundUpToPart_def)
qed

lemma MakeFile_rounding:
  assumes P: "0 < P" and m: "0 < m" and fits: "roundUpToPart P m < 2 ^ 63"
  shows "(if go_mod m P \<noteq> 0 then wrap64 (wrap64 (go_div m P + 1) * P) else m) = roundUpToPart P m"
proof (cases "m mod P = 0")
  case True
  then show ?thesis using P m by (simp add: go_mod_nonneg roundUp_multiple)
next
  case False
  have r: "roundUpToPart P m = (m div P + 1) * P"
    using P False by (rule roundUp_nonmultiple)
  have q: "0 \<le> m div P" using P m by (simp add: pos_imp_zdiv_nonneg_iff)
  have le: "m div P + 1 \<le> (m div P + 1) * P"
    using P q by (simp add: mult_le_cancel_left1)
  have "m div P + 1 < 2 ^ 63"
    using le fits r by linarith
  moreover have "- (2 ^ 63) \<le> m div P + 1"
    using q by (simp add: add_nonneg_nonneg)
  ultimately have a: "wrap64 (m div P + 1) = m div P + 1"
    by (intro wrap64_id)
  have "0 \<le> (m div P + 1) * P"
    using q P by simp
  then have "- (2 ^ 63) \<le> (m div P + 1) * P"
    by simp
  moreover have "(m div P + 1) * P < 2 ^ 63"
    using fits r by simp
  ultimately have b: "wrap64 ((m div P + 1) * P) = (m div P + 1) * P"
    by (intro wrap64_id)
  show ?thesis
    using False P m a b r by (simp add: go_mod_nonneg go_div_nonneg)
qed

text \<open>
  Claim C3, as amended. \<open>MakeFile\<close> returns a Validation error, and changes nothing, for
  options with \<open>maxSize < 0\<close>, for circular options with \<open>maxSize \<le> 0\<close> and for options
  both circular and ijson. For options that pass these checks, when the cache does not
  stop the call, the descriptor handed to the backing store's insert has \<open>size = 0\<close>,
  \<open>createdTs = modTs = now\<close> and, for a circular file, \<open>maxSize\<close> rounded up to the next
  multiple of the part size (unchanged when it is one), provided that multiple is below
  \<open>2^63\<close>; for a file that is not circular the options are handed on as given.
\<close>

theorem MakeFile_validates_and_rounds:
  assumes "0 < P"
  shows "(MaxSize opts < 0 \<or> (Circular opts \<and> MaxSize opts \<le> 0) \<or> (Circular opts \<and> IJson opts) \<longrightarrow>
            (\<exists>e. MakeFile P db now b n meta opts (s, d) = (Inl (Error e), s, d) \<and> isValidation e))
       \<and> (passesValidation opts \<longrightarrow> withLock b n False (MakeFile_locked b n) s = (None, s1) \<longrightarrow>
            (if Circular opts then roundUpToPart P (MaxSize opts) < 2 ^ 63 else True) \<longrightarrow>
            MakeFile P db now b n meta opts (s, d) =
              (case dbInsertFile db
                      \<lparr>BlockFile.BlockId = b, Name = n,
                       Opts = (if Circular opts
                               then opts\<lparr>MaxSize := roundUpToPart P (MaxSize opts)\<rparr> else opts),
                       CreatedTs = now, Size = 0, ModTs = now, Meta = meta\<rparr> d of
                 (Inl err, d1) \<Rightarrow> (Inl (Error err), s1, d1)
               | (Inr u, d1) \<Rightarrow> (Inr (), s1, d1)))"
proof (intro conjI impI)
  assume "MaxSize opts < 0 \<or> (Circular opts \<and> MaxSize opts \<le> 0) \<or> (Circular opts \<and> IJson opts)"
  then show "\<exists>e. MakeFile P db now b n meta opts (s, d) = (Inl (Error e), s, d) \<and> isValidation e"
    by (auto simp: MakeFile_def isValidation_def)
next
  assume v: "passesValidation opts"
    and l: "withLock b n False (MakeFile_locked b n) s = (None, s1)"
    and f: "if Circular opts then roundUpToPart P (MaxSize opts) < 2 ^ 63 else True"
  show "MakeFile P db now b n meta opts (s, d) =
              (case dbInsertFile db
                      \<lparr>BlockFile.BlockId = b, Name = n,
                       Opts = (if Circular opts
                               then opts\<lparr>MaxSize := roundUpToPart P (MaxSize opts)\<rparr> else opts),
                       CreatedTs = now, Size = 0, ModTs = now, Meta = meta\<rparr> d of
                 (Inl err, d1) \<Rightarrow> (Inl (Error err), s1, d1)
               | (Inr u, d1) \<Rightarrow> (Inr (), s1, d1))"
  proof (cases "Circular opts")
    case True
    then have m: "0 < MaxSize opts" and fits: "roundUpToPart P (MaxSize opts) < 2 ^ 63"
      using v f by (simp_all add: passesValidation_def)
    have o: "(if go_mod (MaxSize opts) P \<noteq> 0
              then opts\<lparr>MaxSize := wrap64 (wrap64 (go_div (MaxSize opts) P + 1) * P)\<rparr>
              else opts) = opts\<lparr>MaxSize := roundUpToPart P (MaxSize opts)\<rparr>"
      using MakeFile_rounding [OF assms m fits] by (cases "go_mod (MaxSize opts) P = 0") simp_all
    show ?thesis
      using v True assms l unfolding MakeFile_def passesValidation_def
      by (simp add: o Let_def)
  next
    case False
    then show ?thesis
      using v l unfolding MakeFile_def passesValidation_def
      by (simp add: Let_def)
  qed
qed


theorem MakeFile_validates_and_rounds_witness:
  "(\<exists>e. MakeFile 16 memdb 1000 ''b'' ''f'' None
            \<lparr>MaxSize = 0, Circular = True, IJson = False\<rparr> (emptyStore, emptyDb)
          = (Inl (Error e), emptyStore, emptyDb) \<and> isValidation e)
   \<and> MakeFile 16 memdb 1000 ''b'' ''f'' None
        \<lparr>MaxSize = 40, Circular = True, IJson = False\<rparr> (emptyStore, emptyDb)
     = (Inr (), emptyStore,
        \<lparr>dbFiles = [((''b'', ''f''),
            \<lparr>BlockFile.BlockId = ''b'', Name = ''f'',
             Opts = \<lparr>MaxSize = 48, Circular = True, IJson = False\<rparr>,
             CreatedTs = 1000, Size = 0, ModTs = 1000, Meta = None\<rparr>)], dbParts = []\<rparr>)"
proof -
  have P: "0 < (16::int)" by simp
  have l: "withLock ''b'' ''f'' False (MakeFile_locked ''b'' ''f'') emptyStore = (None, emptyStore)"
    by (simp add: withLock_def MakeFile_locked_def emptyStore_def)
  show ?thesis
    using MakeFile_validates_and_rounds [OF P, of "\<lparr>MaxSize = 0, Circular = True, IJson = False\<rparr>"
        memdb 1000 "''b''" "''f''" None emptyStore emptyDb emptyStore]
      MakeFile_validates_and_rounds [OF P, of "\<lparr>MaxSize = 40, Circular = True, IJson = False\<rparr>"
        memdb 1000 "''b''" "''f''" None emptyStore emptyDb emptyStore]
      l
    by (simp add: passesValidation_def roundUpToPart_def memdb_def emptyDb_def)
qed

text \<open>
  The claim as stated fails: options that are not circular are not rounded (part size 16,
  \<open>maxSize = 10\<close>), and the rounding of a circular \<open>maxSize\<close> within one part of \<open>2^63\<close>
  wraps around.
\<close>

theorem MakeFile_rounds_counterexample:
  "MakeFile 16 memdb 1000 ''b'' ''f'' None \<lparr>MaxSize = 10, Circular = False, IJson = False\<rparr>
     (emptyStore, emptyDb)
   = (Inr (), emptyStore,
      \<lparr>dbFiles = [((''b'', ''f''),
          \<lparr>BlockFile.BlockId = ''b'', Name = ''f'',
           Opts = \<lparr>MaxSize = 10, Circular = False, IJson = False\<rparr>,
           CreatedTs = 1000, Size = 0, ModTs = 1000, Meta = None\<rparr>)], dbParts = []\<rparr>)
   \<and> roundUpToPart 16 10 = 16
   \<and> MakeFile 65536 memdb 1000 ''b'' ''f'' None
        \<lparr>MaxSize = 9223372036854775807, Circular = True, IJson = False\<rparr> (emptyStore, emptyDb)
   = (Inr (), emptyStore,
      \<lparr>dbFiles = [((''b'', ''f''),
          \<lparr>BlockFile.BlockId = ''b'', Name = ''f'',
           Opts = \<lparr>MaxSize = - 9223372036854775808, Circular = True, IJson = False\<rparr>,
           CreatedTs = 1000, Size = 0, ModTs = 1000, Meta = None\<rparr>)], dbParts = []\<rparr>)"
  by (simp add: MakeFile_def withLock_def MakeFile_locked_def emptyStore_def emptyDb_def memdb_def
      roundUpToPart_def go_mod_def go_div_def wrap64_def)


text \<open>
  Claim C4, as amended. When the backing store's insert fails, \<open>MakeFile\<close> returns an
  error, and the store after the call is the store before it, except that, for options
  that pass validation, a deleted entry with no pins and no write intentions under the
  key has been removed.
\<close>

theorem MakeFile_insert_fails:
  assumes P: "0 < P" and fails: "\<And>file. \<exists>err d'. dbInsertFile db file d = (Inl err, d')"
  shows "\<exists>e s' d'. MakeFile P db now b n meta opts (s, d) = (Inl (Error e), s', d')
           \<and> s' = (if passesValidation opts \<and> tombstone b n s
                    then s\<lparr>Cache := AList.delete (b, n) (Cache s)\<rparr> else s)"
proof (cases "passesValidation opts")
  case False
  then show ?thesis
    by (auto simp: passesValidation_def MakeFile_def split: if_splits)
next
  case True
  define opts' where "opts' = (if Circular opts \<and> go_mod (MaxSize opts) P \<noteq> 0
                      then opts\<lparr>MaxSize := wrap64 (wrap64 (go_div (MaxSize opts) P + 1) * P)\<rparr>
                      else opts)"
  define desc where "desc = \<lparr>BlockFile.BlockId = b, Name = n, Opts = opts',
                           CreatedTs = now, Size = 0, ModTs = now, Meta = meta\<rparr>"
  obtain err d' where ins: "dbInsertFile db desc d = (Inl err, d')"
    using fails by blast
  have m: "MakeFile P db now b n meta opts (s, d) =
             (case withLock b n False (MakeFile_locked b n) s of
                (Some cacheErr, s1) \<Rightarrow> (Inl cacheErr, s1, d)
              | (None, s1) \<Rightarrow> (Inl (Error err), s1, d'))"
    using True P ins unfolding MakeFile_def passesValidation_def opts'_def desc_def
    by (auto simp: Let_def split: if_splits prod.splits option.splits)
  show ?thesis
  proof (cases "map_of (Cache s) (b, n)")
    case None
    then show ?thesis
      using True by (simp add: m withLock_def MakeFile_locked_def tombstone_def)
  next
    case (Some e)
    then show ?thesis
      using True by (auto simp: m withLock_def MakeFile_locked_def tombstone_def)
  qed
qed


theorem MakeFile_insert_fails_witness:
  "(\<forall>file. \<exists>err d'. dbInsertFile memdb_down file emptyDb = (Inl err, d'))
   \<and> (\<exists>e d'. MakeFile 16 memdb_down 1000 ''b'' ''f'' None
                 \<lparr>MaxSize = 0, Circular = False, IJson = False\<rparr> (emptyStore, emptyDb)
               = (Inl (Error e), emptyStore, d'))
   \<and> (\<exists>e d'. MakeFile 16 memdb_down 1000 ''b'' ''f'' None
                 \<lparr>MaxSize = 0, Circular = False, IJson = False\<rparr> (tombstoneStore, emptyDb)
               = (Inl (Error e), emptyStore, d'))"
proof -
  have f: "\<And>file. \<exists>err d'. dbInsertFile memdb_down file emptyDb = (Inl err, d')"
    by (simp add: memdb_down_def)
  have P: "0 < (16::int)" by simp
  have t: "tombstone ''b'' ''f'' tombstoneStore" "\<not> tombstone ''b'' ''f'' emptyStore"
    by (simp_all add: tombstone_def tombstoneStore_def emptyStore_def makeCacheEntry_def)
  have c: "tombstoneStore\<lparr>Cache := AList.delete (''b'', ''f'') (Cache tombstoneStore)\<rparr> = emptyStore"
    by (simp add: tombstoneStore_def emptyStore_def)
  have v: "passesValidation \<lparr>MaxSize = 0, Circular = False, IJson = False\<rparr>"
    by (simp add: passesValidation_def)
  show ?thesis
    using f
      MakeFile_insert_fails [OF P f, of 1000 "''b''" "''f''" None
        "\<lparr>MaxSize = 0, Circular = False, IJson = False\<rparr>" emptyStore]
      MakeFile_insert_fails [OF P f, of 1000 "''b''" "''f''" None
        "\<lparr>MaxSize = 0, Circular = False, IJson = False\<rparr>" tombstoneStore]
    by (simp add: t c v)
qed

text \<open>
  The claim as stated fails on a store that holds such an entry: the call fails and the
  entry is gone.
\<close>

theorem MakeFile_insert_fails_counterexample:
  "MakeFile 16 memdb_down 1000 ''b'' ''f'' None \<lparr>MaxSize = 0, Circular = False, IJson = False\<rparr>
     (tombstoneStore, emptyDb)
   = (Inl (Error (ErrMsg ''backing store unavailable'')), emptyStore, emptyDb)
   \<and> Cache tombstoneStore \<noteq> Cache emptyStore"
  by (simp add: MakeFile_def withLock_def MakeFile_locked_def tombstoneStore_def emptyStore_def
      makeCacheEntry_def memdb_down_def)


subsection \<open>Deleting a namespace\<close>

lemma DeleteFile_returns:
  "fst (DeleteFile db b n sd) = Inr () \<or> (\<exists>e. fst (DeleteFile db b n sd) = Inl (Error e))"
  by (simp add: DeleteFile_def split: prod.splits sum.splits)

lemma DeleteBlock_loop_nil: "fst (DeleteBlock_loop db b fileNames sd) = Inr ()"
proof (induction fileNames arbitrary: sd)
  case Nil
  show ?case by simp
next
  case (Cons name fileNames)
  obtain r sd1 where d: "DeleteFile db b name sd = (r, sd1)"
    by (cases "DeleteFile db b name sd")
  have "r = Inr () \<or> (\<exists>e. r = Inl (Error e))"
    using DeleteFile_returns [of db b name sd] d by simp
  then show ?case
    using d Cons.IH [of sd1] by auto
qed

text \<open>
  Claim C10. \<open>DeleteBlock\<close> returns \<open>nil\<close> whenever listing the namespace's file names
  succeeds, whatever the calls of \<open>DeleteFile\<close> it makes return: their errors do not
  reach the caller.
\<close>

theorem DeleteBlock_drops_errors:
  assumes "dbGetBlockFileNames db blockId d = Inr fileNames"
  shows "fst (DeleteBlock db blockId (s, d)) = Inr ()"
  using assms by (simp add: DeleteBlock_def DeleteBlock_loop_nil)

theorem DeleteBlock_drops_errors_witness:
  "dbGetBlockFileNames memdb_down ''b'' dbWithFile = Inr [''f'']
   \<and> fst (DeleteFile memdb_down ''b'' ''f'' (emptyStore, dbWithFile))
       = Inl (Error (ErrWrap ''error deleting file'' (ErrMsg ''backing store unavailable'')))
   \<and> fst (DeleteBlock memdb_down ''b'' (emptyStore, dbWithFile)) = Inr ()"
proof -
  have l: "dbGetBlockFileNames memdb_down ''b'' dbWithFile = Inr [''f'']"
    by (simp add: memdb_down_def memdb_def dbWithFile_def)
  show ?thesis
    using l DeleteBlock_drops_errors [OF l, of emptyStore]
    by (simp add: DeleteFile_def memdb_down_def)
qed


subsection \<open>Writing at an offset\<close>

text \<open>
  Claim C5. For a file that exists (\<open>loadFileInfo\<close> finds it, in the cache or in the
  backing store), \<open>WriteAt\<close> returns a Validation error when the offset is negative and
  when it is greater than the file's size.
\<close>

theorem WriteAt_rejects_offset:
  assumes "loadFileInfo db b n d (pinCacheEntry b n s) = (Inr file, s1)"
  shows "(offset < 0 \<longrightarrow>
            fst (WriteAt P db now b n offset data d s)
              = Inl (Error (ErrMsg ''offset must be non-negative'')))
       \<and> (0 \<le> offset \<and> Size file < offset \<longrightarrow>
            fst (WriteAt P db now b n offset data d s)
              = Inl (Error (ErrMsg ''offset is past the end of the file'')))
       \<and> (offset < 0 \<or> Size file < offset \<longrightarrow>
            (\<exists>e. fst (WriteAt P db now b n offset data d s) = Inl (Error e) \<and> isValidation e))"
  using assms by (auto simp: WriteAt_def WriteAt_pinned_def isValidation_def)

theorem WriteAt_rejects_offset_witness:
  "fst (WriteAt 16 memdb 1001 ''b'' ''f'' (- 1) [104] dbWithFile emptyStore)
     = Inl (Error (ErrMsg ''offset must be non-negative''))
   \<and> fst (WriteAt 16 memdb 1001 ''b'' ''f'' 1 [104] dbWithFile emptyStore)
     = Inl (Error (ErrMsg ''offset is past the end of the file''))"
proof -
  have "\<exists>s1. loadFileInfo memdb ''b'' ''f'' dbWithFile (pinCacheEntry ''b'' ''f'' emptyStore)
          = (Inr (plainFile 0), s1)"
    by (simp add: loadFileInfo_def getFileFromCache_def pinCacheEntry_def emptyStore_def
        makeCacheEntry_def memdb_def dbWithFile_def withLock_def loadFileInfo_locked_def)
  then obtain s1 where
    l: "loadFileInfo memdb ''b'' ''f'' dbWithFile (pinCacheEntry ''b'' ''f'' emptyStore)
          = (Inr (plainFile 0), s1)" ..
  show ?thesis
    using WriteAt_rejects_offset [OF l, of "- 1" 16 1001 "[104]"] WriteAt_rejects_offset [OF l, of 1 16 1001 "[104]"]
    by (simp add: plainFile_def)
qed


subsection \<open>Flushing\<close>

lemma FlushCache_unchanged: "FlushCache s = (Inr (), s)"
  by (simp add: FlushCache_def)

lemma writeAt_loop_Nil: "writeAt_loop P offset [] entry = (Inr (), entry)"
  by (simp add: writeAt_loop.simps)

text \<open>
  Claim C1 does not hold of the code. \<open>FlushCache\<close> collects the keys of the dirty entries
  and returns \<open>nil\<close> without flushing them: in the store reached by writing two bytes to
  a file, the scan finds the key, the call succeeds, the store is unchanged and its
  buffers are still dirty.
\<close>

theorem FlushCache_leaves_dirty:
  "WriteFile 16 memdb 1001 ''b'' ''f'' [104, 105] dbWithFile emptyStore = (Inr (), dirtyStore)
   \<and> FlushCache_scan dirtyStore = [(''b'', ''f'')]
   \<and> FlushCache dirtyStore = (Inr (), dirtyStore)
   \<and> buffersClean dirtyStore = False"
  apply (intro conjI)
  subgoal
    by (simp add: WriteFile_def pinCacheEntry_def setWriteIntention_def emptyStore_def
      makeCacheEntry_def loadFileInfo_def getFileFromCache_def memdb_def dbWithFile_def
      withLock_def loadFileInfo_locked_def withLockExists_def writeAtToCache_def writeAt_def
      writeAt_loop.simps [of _ _ "_ # _"] writeAt_loop_Nil go_div_def go_mod_def ensurePart_def
      writeToPart_def makeDataCacheEntry_def modifyFileData_def clearWriteIntention_def
      unpinCacheEntry_def DeepCopy_def copyMeta_def plainFile_def dirtyStore_def Let_def
      numeral_eq_Suc)
   subgoal by (simp add: FlushCache_scan_def FlushCache_dirty_def dirtyStore_def)
   subgoal by (simp add: FlushCache_def)
   subgoal by (simp add: buffersClean_def dirtyStore_def)
   done

subsection \<open>Reading: the parts requested\<close>

text \<open>
  For a plain file the parts requested are those from the part of the offset to the part
  of byte \<open>offset + size\<close>, the byte after the last one read.
\<close>

lemma partsNeeded_loop_plain:
  assumes "0 < P" "\<not> Circular (Opts f)" "0 \<le> i"
  shows "ReadAt_partsNeeded_loop P f e i acc
           = Inr (acc @ map (\<lambda>k. i div P + int k) [0..<nat ((e - i + P - 1) div P)])"
  using assms
proof (induction P f e i acc rule: ReadAt_partsNeeded_loop.induct)
  case (1 P f e i acc)
  show ?case
  proof (cases "i < e")
    case False
    then have "e - i + P - 1 \<le> P - 1"
      by simp
    then have "(e - i + P - 1) div P \<le> (P - 1) div P"
      using "1.prems"(1) by (intro zdiv_mono1) simp_all
    moreover have "(P - 1) div P = 0"
      using "1.prems"(1) by (intro div_pos_pos_trivial) simp_all
    ultimately have "(e - i + P - 1) div P \<le> 0"
      by simp
    then show ?thesis
      using False by (simp add: ReadAt_partsNeeded_loop.simps [of P f e i])
  next
    case True
    have idx: "partIdxAtOffset P f i = Inr (i div P)"
      using "1.prems" by (simp add: partIdxAtOffset_def go_div_nonneg)
    have ih: "ReadAt_partsNeeded_loop P f e (i + P) (acc @ [i div P])
           = Inr ((acc @ [i div P]) @ map (\<lambda>k. (i + P) div P + int k)
                   [0..<nat ((e - (i + P) + P - 1) div P)])"
      using "1.IH" [OF True idx] "1.prems" by simp
    have nn: "0 \<le> (e - i - 1) div P"
      using True "1.prems"(1) by (simp add: pos_imp_zdiv_nonneg_iff)
    have P0: "P \<noteq> 0"
      using "1.prems"(1) by simp
    have eq: "e - i + P - 1 = e - i - 1 + P"
      by simp
    have "(e - i + P - 1) div P = (e - i - 1) div P + 1"
      unfolding eq using P0 by (rule div_add_self2)
    then have n: "nat ((e - i + P - 1) div P) = Suc (nat ((e - i - 1) div P))"
      using nn by simp
    have d: "(i + P) div P = i div P + 1"
      using P0 by (rule div_add_self2)
    have m: "map (\<lambda>k. i div P + int k) [0..<Suc n] =
             (i div P) # map (\<lambda>k. i div P + 1 + int k) [0..<n]" for n
      by (induction n) simp_all
    have step: "ReadAt_partsNeeded_loop P f e i acc
                  = ReadAt_partsNeeded_loop P f e (i + P) (acc @ [i div P])"
      using True idx "1.prems"(1) by (simp add: ReadAt_partsNeeded_loop.simps [of P f e i])
    have "ReadAt_partsNeeded_loop P f e i acc
            = Inr (acc @ i div P # map (\<lambda>k. i div P + 1 + int k) [0..<nat ((e - i - 1) div P)])"
      using ih by (simp add: step d)
    then show ?thesis
      unfolding n m .
  qed
qed

lemma partsNeeded_plain:
  assumes P: "0 < P" and nc: "\<not> Circular (Opts f)" and o: "0 \<le> offset" and sz: "0 < size'"
  shows "ReadAt_partsNeeded P f offset size'
           = Inr (map (\<lambda>k. offset div P + int k)
                    [0..<nat ((offset + size') div P - offset div P + 1)])"
proof -
  define E where "E = (offset + size') div P"
  have lp: "go_mod (offset + size') P = (offset + size') mod P"
    using P o sz by (simp add: go_mod_nonneg)
  have e: "offset + size' - (offset + size') mod P + P = (E + 1) * P"
    by (simp add: E_def algebra_simps minus_mod_eq_mult_div)
  have "(E + 1) * P - offset + P - 1 = P * (E - offset div P + 1) + (P - 1 - offset mod P)"
    by (simp add: algebra_simps minus_mod_eq_mult_div)
  moreover have "0 \<le> P - 1 - offset mod P"
    using pos_mod_bound [OF P, of offset] by simp
  moreover have "P - 1 - offset mod P < P"
    using pos_mod_sign [OF P, of offset] by simp
  ultimately have "((E + 1) * P - offset + P - 1) div P = E - offset div P + 1"
    by (metis int_div_pos_eq)
  then show ?thesis
    using P partsNeeded_loop_plain [OF P nc o, of "(E + 1) * P" "[]"]
    by (simp add: ReadAt_partsNeeded_def lp e Let_def E_def)
qed

text \<open>
  Claim C7 does not hold of the code. \<open>ReadAt\<close> steps from the offset to the end of the
  part that contains byte \<open>offset + size\<close>, not byte \<open>offset + size - 1\<close>: when the read
  ends on a part boundary it requests one part more. With part size 16, reading 16 bytes
  at offset 0 of a plain file requests parts 0 and 1, while bytes 0 to 15 all lie in part
  0; \<open>computePartMap\<close>, for a write of the same range, names part 0 only.
\<close>

theorem ReadAt_requests_extra_part:
  "ReadAt_partsNeeded 16 (plainFile 16) 0 16 = Inr [0, 1]
   \<and> partContaining 16 (plainFile 16) 0 = 0
   \<and> partContaining 16 (plainFile 16) (0 + 16 - 1) = 0
   \<and> computePartMap 16 (plainFile 16) 0 16 = Inr [(0, 16)]"
  by (simp add: ReadAt_partsNeeded_def ReadAt_partsNeeded_loop.simps partIdxAtOffset_def
      plainFile_def go_mod_def go_div_def partContaining_def Let_def
      computePartMap_def computePartMap_loop.simps)


subsection \<open>The store as seen through one key\<close>









lemma DeepCopy_fields [simp]:
  "Size (DeepCopy f) = Size f" "ModTs (DeepCopy f) = ModTs f" "Opts (DeepCopy f) = Opts f"
  by (simp_all add: DeepCopy_def)



subsection \<open>Writing to a circular file\<close>



subsection \<open>Meta\<close>








lemma Meta_DeepCopy [simp]: "Meta (DeepCopy f) = copyMeta (Meta f)"
  by (simp add: DeepCopy_def)







lemma WriteMeta_replace_example:
  "WriteMeta memdb ''b'' ''f'' (Some [(''k2'', AnyStr ''v''), (''k3'', AnyInt 3)]) False
       dbWithFile emptyStore = (Inr (), metaStoreA)"
  by (simp add: WriteMeta_def pinCacheEntry_def emptyStore_def
      makeCacheEntry_def loadFileInfo_def getFileFromCache_def memdb_def dbWithFile_def
      withLock_def loadFileInfo_locked_def withLockExists_def modifyFileData_def
      WriteMeta_fn_def unpinCacheEntry_def DeepCopy_def copyMeta_def plainFile_def Let_def
      metaStoreA_def)





subsection \<open>Reading a circular file\<close>



lemma A40_WriteFile:
  "WriteFile 16 memdb 1001 ''b'' ''f'' (replicate 40 65) dbCircular0 emptyStore
     = (Inr (), storeA40)"
  by (simp add: WriteFile_def pinCacheEntry_def setWriteIntention_def emptyStore_def
      makeCacheEntry_def loadFileInfo_def getFileFromCache_def memdb_def dbCircular0_def
      withLock_def loadFileInfo_locked_def withLockExists_def writeAtToCache_def writeAt_def
      writeAt_loop.simps [of _ _ "_ # _"] writeAt_loop_Nil go_div_def go_mod_def ensurePart_def
      writeToPart_def makeDataCacheEntry_def modifyFileData_def clearWriteIntention_def
      unpinCacheEntry_def DeepCopy_def copyMeta_def circularFile_def storeA40_def part16_def
      Let_def numeral_eq_Suc)






end
